theory Spec2Isabelle
  imports Complex_Main
begin

section \<open>Python values, exceptions and string primitives\<close>

text \<open>
  The development embeds \<^verbatim>\<open>utils/mcutils.py\<close>. A Python \<^verbatim>\<open>str\<close> is modelled as a
  \<^typ>\<open>string\<close> whose characters are the code points below 256; on that range \<^verbatim>\<open>\d\<close>
  matches exactly the ten ASCII digits and \<^verbatim>\<open>\s\<close> exactly the twelve code points for which
  \<^verbatim>\<open>str.isspace\<close> holds. The decimal digits of other scripts, which \<^verbatim>\<open>\d\<close> and
  \<^verbatim>\<open>int\<close> accept as well, lie beyond that range: a statement below about every string is
  a statement about every string of code points below 256. Every \<^verbatim>\<open>raise\<close> and every exception raised by the interpreter
  is a value \<open>Inl e\<close> of the result type. The unfinished method \<^verbatim>\<open>start_loop\<close>
  (a dangling \<^verbatim>\<open>for x, y\<close>) is left out; the other functions are embedded as they are written.
\<close>

datatype error =
    ValueError string
  | TypeError string
  | AttributeError string
  | KeyError string
  | IndexError string
  | OverflowError string

definition bindE :: "error + 'a \<Rightarrow> ('a \<Rightarrow> error + 'b) \<Rightarrow> error + 'b" where
  "bindE m f = (case m of Inl e \<Rightarrow> Inl e | Inr x \<Rightarrow> f x)"

definition newline :: char where
  "newline = CHR 0x0A"

definition backtick :: char where
  "backtick = CHR 0x60"

definition is_digit :: "char \<Rightarrow> bool" where
  "is_digit c = (48 \<le> (of_char c :: nat) \<and> (of_char c :: nat) \<le> 57)"

definition is_space :: "char \<Rightarrow> bool" where
  "is_space c = ((of_char c :: nat) \<in> set [9, 10, 11, 12, 13, 28, 29, 30, 31, 32, 133, 160])"

definition digit_char :: "nat \<Rightarrow> char" where
  "digit_char d = char_of (48 + d)"

definition digit_val :: "char \<Rightarrow> nat" where
  "digit_val c = of_char c - 48"

text \<open>\<^verbatim>\<open>str(n)\<close> for a natural number, and the format specification \<^verbatim>\<open>:02\<close> on an
  \<^verbatim>\<open>int\<close>: sign-aware zero padding to a minimum width of two.\<close>

fun str_nat :: "nat \<Rightarrow> string" where
  "str_nat n = (if n < 10 then [digit_char n] else str_nat (n div 10) @ [digit_char (n mod 10)])"

declare str_nat.simps [simp del]

definition str_int :: "int \<Rightarrow> string" where
  "str_int n = (if n < 0 then CHR ''-'' # str_nat (nat (- n)) else str_nat (nat n))"

definition fmt02 :: "int \<Rightarrow> string" where
  "fmt02 n =
     (if n < 0 then CHR ''-'' # replicate (1 - length (str_nat (nat (- n)))) CHR ''0'' @ str_nat (nat (- n))
      else replicate (2 - length (str_nat (nat n))) CHR ''0'' @ str_nat (nat n))"

text \<open>\<^verbatim>\<open>str.split(sep)\<close> with a one-character separator.\<close>

fun split_on :: "char \<Rightarrow> string \<Rightarrow> string list" where
  "split_on c [] = [[]]"
| "split_on c (x # xs) =
     (if x = c then [] # split_on c xs
      else (case split_on c xs of [] \<Rightarrow> [[x]] | p # ps \<Rightarrow> (x # p) # ps))"

text \<open>\<^verbatim>\<open>xs[i]\<close> for a non-negative literal index.\<close>

definition item :: "'a list \<Rightarrow> nat \<Rightarrow> error + 'a" where
  "item xs i = (if i < length xs then Inr (xs ! i) else Inl (IndexError ''list index out of range''))"

text \<open>\<^verbatim>\<open>int(s)\<close> for a string in base ten: surrounding white space is stripped, one sign
  is accepted, and single underscores may separate digits.\<close>

definition strip :: "string \<Rightarrow> string" where
  "strip s = rev (dropWhile is_space (rev (dropWhile is_space s)))"

fun digits_us :: "string \<Rightarrow> bool" where
  "digits_us [] = False"
| "digits_us [c] = is_digit c"
| "digits_us (c # d # r) = (is_digit c \<and> (if d = CHR ''_'' then digits_us r else digits_us (d # r)))"

definition dec_value :: "string \<Rightarrow> nat" where
  "dec_value s = foldl (\<lambda>acc c. 10 * acc + digit_val c) 0 s"

definition py_int :: "string \<Rightarrow> error + int" where
  "py_int s =
     (let t = strip s;
          neg = (case t of [] \<Rightarrow> False | c # _ \<Rightarrow> c = CHR ''-'');
          u = (case t of [] \<Rightarrow> [] | c # r \<Rightarrow> if c = CHR ''-'' \<or> c = CHR ''+'' then r else t)
      in if digits_us u
         then Inr ((if neg then -1 else 1) * int (dec_value (filter (\<lambda>c. c \<noteq> CHR ''_'') u)))
         else Inl (ValueError ''invalid literal for int() with base 10''))"

text \<open>A Python \<^verbatim>\<open>float\<close> is a finite rational, an infinity or a NaN; \<^verbatim>\<open>round(f)\<close> rounds
  to the nearest integer, ties to the even one, and raises on the non-finite values.\<close>

datatype pyfloat = Finite rat | PosInf | NegInf | NaN

datatype pynum = PInt int | PFloat pyfloat

definition round_half_even :: "rat \<Rightarrow> int" where
  "round_half_even q =
     (let f = \<lfloor>q\<rfloor>; d = q - of_int f
      in if d < 1 / 2 then f else if 1 / 2 < d then f + 1 else if even f then f else f + 1)"

fun py_round :: "pyfloat \<Rightarrow> error + int" where
  "py_round (Finite q) = Inr (round_half_even q)"
| "py_round NaN = Inl (ValueError ''cannot convert float NaN to integer'')"
| "py_round PosInf = Inl (OverflowError ''cannot convert float infinity to integer'')"
| "py_round NegInf = Inl (OverflowError ''cannot convert float infinity to integer'')"

section \<open>Regular expressions\<close>

text \<open>
  The fragment of Python's \<^verbatim>\<open>re\<close> syntax that the module's patterns use, with the
  backtracking semantics of the library: a matcher returns every way of matching at a
  position, most preferred first, so that the head of the list is the match \<^verbatim>\<open>re\<close> reports.
  A position is the reversed text before it and the text after it; the third component
  holds the captured groups, latest first.
\<close>

datatype citem = CChar char | CRange char char | CDigit

datatype regex =
    Lit char
  | Dot
  | Digit
  | Space
  | OneOf "citem list"
  | Bol
  | Eol
  | Eps
  | Seq regex regex
  | Alt regex regex
  | Opt regex
  | Star regex
  | Plus regex
  | LazyStar regex
  | Group nat regex
  | Look regex

record re_flags =
  dotall :: bool
  multiline :: bool

type_synonym mstate = "string \<times> string \<times> (nat \<times> string) list"

fun in_citem :: "char \<Rightarrow> citem \<Rightarrow> bool" where
  "in_citem c (CChar d) = (c = d)"
| "in_citem c (CRange lo hi) = ((of_char lo :: nat) \<le> of_char c \<and> (of_char c :: nat) \<le> of_char hi)"
| "in_citem c CDigit = is_digit c"

definition step_if :: "(char \<Rightarrow> bool) \<Rightarrow> mstate \<Rightarrow> mstate list" where
  "step_if p st =
     (case st of (b, a, k) \<Rightarrow>
        (case a of [] \<Rightarrow> [] | x # a' \<Rightarrow> if p x then [(x # b, a', k)] else []))"

definition at_bol :: "re_flags \<Rightarrow> mstate \<Rightarrow> bool" where
  "at_bol fl st =
     (case st of (b, a, k) \<Rightarrow>
        (case b of [] \<Rightarrow> True | x # _ \<Rightarrow> multiline fl \<and> x = newline))"

definition at_eol :: "re_flags \<Rightarrow> mstate \<Rightarrow> bool" where
  "at_eol fl st =
     (case st of (b, a, k) \<Rightarrow>
        (case a of [] \<Rightarrow> True | x # a' \<Rightarrow> x = newline \<and> (a' = [] \<or> multiline fl)))"

definition remaining :: "mstate \<Rightarrow> nat" where
  "remaining st = (case st of (b, a, k) \<Rightarrow> length a)"

definition capture :: "nat \<Rightarrow> mstate \<Rightarrow> mstate \<Rightarrow> mstate" where
  "capture n st st' =
     (case st of (b, a, k) \<Rightarrow>
        (case st' of (b', a', k') \<Rightarrow>
           (b', a', (n, rev (take (length b' - length b) b')) # k')))"

function ms :: "re_flags \<Rightarrow> regex \<Rightarrow> mstate \<Rightarrow> mstate list" where
  "ms fl (Lit c) st = step_if (\<lambda>x. x = c) st"
| "ms fl Dot st = step_if (\<lambda>x. dotall fl \<or> x \<noteq> newline) st"
| "ms fl Digit st = step_if is_digit st"
| "ms fl Space st = step_if is_space st"
| "ms fl (OneOf cs) st = step_if (\<lambda>x. list_ex (in_citem x) cs) st"
| "ms fl Bol st = (if at_bol fl st then [st] else [])"
| "ms fl Eol st = (if at_eol fl st then [st] else [])"
| "ms fl Eps st = [st]"
| "ms fl (Seq r1 r2) st = concat (map (ms fl r2) (ms fl r1 st))"
| "ms fl (Alt r1 r2) st = ms fl r1 st @ ms fl r2 st"
| "ms fl (Opt r) st = ms fl r st @ [st]"
| "ms fl (Star r) st =
     concat (map (\<lambda>st'. if remaining st' < remaining st then ms fl (Star r) st' else [])
                 (ms fl r st)) @ [st]"
| "ms fl (Plus r) st =
     concat (map (\<lambda>st'. if remaining st' < remaining st then ms fl (Star r) st' else [st'])
                 (ms fl r st))"
| "ms fl (LazyStar r) st =
     st # concat (map (\<lambda>st'. if remaining st' < remaining st then ms fl (LazyStar r) st' else [])
                      (ms fl r st))"
| "ms fl (Group n r) st = map (capture n st) (ms fl r st)"
| "ms fl (Look r) st =
     (case ms fl r st of [] \<Rightarrow> [] | st' # _ \<Rightarrow> [(fst st, fst (snd st), snd (snd st'))])"
  by pat_completeness auto
termination
  by (relation "measures [\<lambda>(fl, r, st). size r, \<lambda>(fl, r, st). remaining st]") auto


text \<open>A compiled pattern is its flags and its syntax tree. \<^verbatim>\<open>match\<close> tries the start of
  the text only, \<^verbatim>\<open>search\<close> every position from the left, \<^verbatim>\<open>findall\<close> collects the
  successive non-overlapping matches; a result is the final position with its groups.\<close>

type_synonym pattern = "re_flags \<times> regex"

definition re_match :: "pattern \<Rightarrow> string \<Rightarrow> mstate option" where
  "re_match p s = (case ms (fst p) (snd p) ([], s, []) of [] \<Rightarrow> None | st # _ \<Rightarrow> Some st)"

fun search_from :: "pattern \<Rightarrow> string \<Rightarrow> string \<Rightarrow> mstate option" where
  "search_from p b [] = (case ms (fst p) (snd p) (b, [], []) of [] \<Rightarrow> None | st # _ \<Rightarrow> Some st)"
| "search_from p b (x # a) =
     (case ms (fst p) (snd p) (b, x # a, []) of
        [] \<Rightarrow> search_from p (x # b) a
      | st # _ \<Rightarrow> Some st)"

definition re_search :: "pattern \<Rightarrow> string \<Rightarrow> mstate option" where
  "re_search p s = search_from p [] s"

definition group :: "mstate \<Rightarrow> nat \<Rightarrow> string option" where
  "group st n = map_of (snd (snd st)) n"

definition group_or_empty :: "mstate \<Rightarrow> nat \<Rightarrow> string" where
  "group_or_empty st n = (case group st n of None \<Rightarrow> [] | Some g \<Rightarrow> g)"

function findall_from :: "pattern \<Rightarrow> string \<Rightarrow> string \<Rightarrow> mstate list" where
  "findall_from p b a =
     (case ms (fst p) (snd p) (b, a, []) of
        [] \<Rightarrow> (case a of [] \<Rightarrow> [] | x # a' \<Rightarrow> findall_from p (x # b) a')
      | st # _ \<Rightarrow>
          (if remaining st < length a
           then st # findall_from p (fst st) (fst (snd st))
           else st # (case a of [] \<Rightarrow> [] | x # a' \<Rightarrow> findall_from p (x # b) a')))"
  by pat_completeness auto
termination
  by (relation "measure (\<lambda>(p, b, a). length a)") (auto simp: remaining_def)

text \<open>\<^verbatim>\<open>findall\<close> on a pattern with two groups returns the pairs of their texts.\<close>

definition findall2 :: "pattern \<Rightarrow> string \<Rightarrow> (string \<times> string) list" where
  "findall2 p s = map (\<lambda>st. (group_or_empty st 1, group_or_empty st 2)) (findall_from p [] s)"

fun seqs :: "regex list \<Rightarrow> regex" where
  "seqs [] = Eps"
| "seqs [r] = r"
| "seqs (r # rs) = Seq r (seqs rs)"

definition lits :: "string \<Rightarrow> regex" where
  "lits s = seqs (map Lit s)"

definition rep :: "nat \<Rightarrow> regex \<Rightarrow> regex" where
  "rep n r = seqs (replicate n r)"

definition no_flags :: re_flags where
  "no_flags = \<lparr>dotall = False, multiline = False\<rparr>"

section \<open>Module constants\<close>

definition MULTI_TYPES :: "string list" where
  "MULTI_TYPES = [''Album'', ''EP'']"

definition LONG_TYPES :: "string list" where
  "LONG_TYPES = [''Mixes'', ''Podcast'']"

definition TRACKLIST_REGEX :: pattern where
  "TRACKLIST_REGEX =
     (\<lparr>dotall = True, multiline = True\<rparr>,
      seqs [Group 1 (seqs [Bol, Opt (seqs [rep 2 Digit, Lit CHR '':'']),
                           rep 2 Digit, Lit CHR '':'', rep 2 Digit]),
            Space,
            Group 2 (LazyStar Dot),
            Look (Alt (seqs [Bol, rep 2 Digit, Lit CHR '':'', rep 2 Digit, Lit CHR '':'',
                             rep 2 Digit, Space])
                      Eol)])"

definition DURATION_REGEX :: pattern where
  "DURATION_REGEX =
     (no_flags,
      seqs [Bol, Opt (seqs [rep 2 Digit, Lit CHR '':'']),
            rep 2 Digit, Lit CHR '':'', rep 2 Digit, Eol])"

section \<open>The duration codec\<close>

definition divmod :: "int \<Rightarrow> int \<Rightarrow> int \<times> int" where
  "divmod a b = (a div b, a mod b)"

definition gen_duration :: "pynum \<Rightarrow> error + string" where
  "gen_duration seconds =
     bindE (case seconds of PFloat f \<Rightarrow> py_round f | PInt n \<Rightarrow> Inr n)
       (\<lambda>seconds.
          let (minutes, seconds) = divmod seconds 60;
              (hours, minutes) = divmod minutes 60
          in Inr (if hours \<noteq> 0
                  then fmt02 hours @ '':'' @ fmt02 minutes @ '':'' @ fmt02 seconds
                  else fmt02 minutes @ '':'' @ fmt02 seconds))"

definition bad_duration :: error where
  "bad_duration =
     ValueError (''Time passed does not match required format: '' @
                 [backtick] @ ''XX:XX'' @ [backtick] @ '' or '' @
                 [backtick] @ ''XX:XX:XX'' @ [backtick])"

definition parse_duration :: "string \<Rightarrow> error + int" where
  "parse_duration dur =
     (if re_match DURATION_REGEX dur = None then Inl bad_duration
      else
        let parts = split_on CHR '':'' dur in
        if length parts = 3
        then bindE (bindE (item parts 0) py_int) (\<lambda>h.
             bindE (bindE (item parts 1) py_int) (\<lambda>m.
             bindE (bindE (item parts 2) py_int) (\<lambda>s.
               Inr (0 + h * 60 * 60 + m * 60 + s))))
        else bindE (bindE (item parts 0) py_int) (\<lambda>m.
             bindE (bindE (item parts 1) py_int) (\<lambda>s.
               Inr (0 + m * 60 + s))))"


section \<open>The classifier tables\<close>

text \<open>A \<^verbatim>\<open>dict\<close> literal is the list of its items in source order. Iterating a
  \<^verbatim>\<open>dict\<close> yields its keys, not its items.\<close>

definition dict_iter :: "('k \<times> 'v) list \<Rightarrow> 'k list" where
  "dict_iter d = map fst d"

definition scheme :: regex where
  "scheme = Opt (seqs [lits ''http'', Opt (Lit CHR ''s''), lits ''://''])"

definition www :: regex where
  "www = Opt (lits ''www.'')"

definition URL_REGEXES :: "(string \<times> pattern) list" where
  "URL_REGEXES =
     [(''Facebook'', (no_flags, seqs [Bol, scheme, www, lits ''facebook.com''])),
      (''SoundCloud'', (no_flags, seqs [Bol, scheme, www, lits ''soundcloud.com''])),
      (''Instagram'', (no_flags, seqs [Bol, scheme, www, lits ''instagram.com''])),
      (''YouTube'', (no_flags,
         seqs [Bol, scheme,
               Alt (seqs [Opt (Alt (lits ''www.'') (seqs [Lit CHR ''m'', Dot])), lits ''youtube.com''])
                   (lits ''youtu.be'')])),
      (''Twitter'', (no_flags, seqs [Bol, scheme, www, lits ''twitter.com''])),
      (''Spotify'', (no_flags, seqs [Bol, scheme, lits ''open.spotify.com''])),
      (''Beatport'', (no_flags, seqs [Bol, scheme, www, lits ''beatport.com''])),
      (''iTunes'', (no_flags, seqs [Bol, scheme, lits ''itunes.apple.com''])),
      (''Mixcloud'', (no_flags, seqs [Bol, scheme, www, lits ''mixcloud.com''])),
      (''Bandcamp'', (no_flags, seqs [Bol, scheme, lits ''music.monstercat.com''])),
      (''Google Play'', (no_flags, seqs [Bol, scheme, lits ''play.google.com'']))]"

definition catalog :: "string \<Rightarrow> regex" where
  "catalog prefix = seqs [Bol, lits prefix, rep 3 Digit, Eol]"

definition CATALOG_REGEXES :: "(string \<times> pattern) list" where
  "CATALOG_REGEXES =
     [(''Album'', (no_flags, Alt (seqs [Bol, lits ''MCUV-'', Plus Digit, Eol]) (catalog ''MC''))),
      (''Best of Compilation'', (no_flags, catalog ''MCB'')),
      (''Special Compilation'', (no_flags, catalog ''MCS'')),
      (''5 Year Anniversary Track'', (no_flags, seqs [Bol, lits ''MCX004-'', Digit, Eol])),
      (''Call of the Wild'', (no_flags, catalog ''COTW'')),
      (''Podcast'', (no_flags, catalog ''MCP'')),
      (''Rocket League Album'', (no_flags, catalog ''MCRL'')),
      (''Long Play'', (no_flags, catalog ''MCLP'')),
      (''Extended Play'', (no_flags, catalog ''MCEP'')),
      (''Free Download'', (no_flags, catalog ''MCF'')),
      (''Single'', (no_flags, catalog ''MCS''))]"

definition lower_alnum :: regex where
  "lower_alnum = OneOf [CDigit, CRange CHR ''a'' CHR ''z'']"

definition PERFORMANCE_HORIZON_REGEX :: pattern where
  "PERFORMANCE_HORIZON_REGEX =
     (no_flags,
      seqs [Bol, scheme, lits ''prf'', Dot, lits ''hn/click/camref:'', Plus lower_alnum,
            lits ''/pubref:'', Plus lower_alnum, lits ''/destination:'', Star Dot, Eol])"

definition PERFORMANCE_HORIZON_DEST_REGEX :: pattern where
  "PERFORMANCE_HORIZON_DEST_REGEX =
     (no_flags, seqs [lits ''destination:'', Group 1 (Star Dot), Eol])"

section \<open>The classifiers\<close>

text \<open>The target list \<^verbatim>\<open>x, y\<close> of a \<^verbatim>\<open>for\<close> clause unpacks each element of the
  iteration. An element that is a string unpacks into its characters, and only a string of
  length two fits two targets.\<close>

definition too_many :: error where
  "too_many = ValueError ''too many values to unpack (expected 2)''"

fun unpack2 :: "string \<Rightarrow> error + string \<times> string" where
  "unpack2 [a, b] = Inr ([a], [b])"
| "unpack2 (a # b # c # r) = Inl too_many"
| "unpack2 s = Inl (ValueError ''not enough values to unpack (expected 2)'')"

text \<open>Looking up the method \<^verbatim>\<open>search\<close> or \<^verbatim>\<open>match\<close> on a \<^verbatim>\<open>str\<close>, which has
  neither.\<close>

definition str_method :: "string \<Rightarrow> string \<Rightarrow> error + 'a" where
  "str_method obj name = Inl (AttributeError (''str object has no attribute '' @ name))"

text \<open>\<^verbatim>\<open>[x for x, y in d if y.meth(arg)]\<close> over the elements that iterating \<open>d\<close> yields.\<close>

fun comprehension :: "string list \<Rightarrow> (string \<Rightarrow> error + bool) \<Rightarrow> error + string list" where
  "comprehension [] cond = Inr []"
| "comprehension (k # ks) cond =
     bindE (unpack2 k) (\<lambda>(x, y).
     bindE (cond y) (\<lambda>c.
     bindE (comprehension ks cond) (\<lambda>rest.
       Inr (if c then x # rest else rest))))"

text \<open>\<^verbatim>\<open>urllib.parse.unquote\<close> is a parameter of \<open>get_name\<close>.\<close>

definition get_name :: "(string \<Rightarrow> string) \<Rightarrow> string \<Rightarrow> error + string" where
  "get_name unquote url =
     bindE (comprehension (dict_iter URL_REGEXES) (\<lambda>y. str_method y ''search'')) (\<lambda>name.
       if name \<noteq> [] then item name 0
       else if re_search PERFORMANCE_HORIZON_REGEX url \<noteq> None
       then (case re_search PERFORMANCE_HORIZON_DEST_REGEX url of
               None \<Rightarrow> Inl (AttributeError ''NoneType object has no attribute group'')
             | Some m \<Rightarrow>
                 (case group m 1 of
                    None \<Rightarrow> Inl (TypeError ''unquote of None'')
                  | Some g \<Rightarrow> Inr (unquote g)))
       else Inr url)"

definition is_catalog_id :: "string \<Rightarrow> error + bool" where
  "is_catalog_id ident =
     bindE (comprehension (dict_iter CATALOG_REGEXES) (\<lambda>y. str_method y ''match'')) (\<lambda>found.
       Inr (if found \<noteq> [] then True else False))"

definition get_type_from_catalog_id :: "string \<Rightarrow> error + string option" where
  "get_type_from_catalog_id ident =
     bindE (comprehension (dict_iter CATALOG_REGEXES) (\<lambda>y. str_method y ''match'')) (\<lambda>type.
       if type \<noteq> [] then bindE (item type 0) (\<lambda>t. Inr (Some t))
       else Inr None)"

fun join :: "string \<Rightarrow> string list \<Rightarrow> string" where
  "join sep [] = []"
| "join sep [x] = x"
| "join sep (x # xs) = x @ sep @ join sep xs"

definition gen_search :: "string \<Rightarrow> string list \<Rightarrow> string" where
  "gen_search search flds = ''?fuzzyOr='' @ join '','' (map (\<lambda>x. x @ '','' @ search) flds)"

section \<open>Decoded JSON and the operations the module applies to it\<close>

text \<open>The remote services answer with JSON, which the module handles as untyped Python
  values. Each operation raises what Python raises on a value of the wrong shape. The keys
  of an object are distinct.\<close>

datatype json =
    JNull
  | JBool bool
  | JInt int
  | JFloat pyfloat
  | JStr string
  | JArr "json list"
  | JObj "(string \<times> json) list"

fun truthy :: "json \<Rightarrow> bool" where
  "truthy JNull = False"
| "truthy (JBool b) = b"
| "truthy (JInt n) = (n \<noteq> 0)"
| "truthy (JFloat f) = (f \<noteq> Finite 0)"
| "truthy (JStr s) = (s \<noteq> [])"
| "truthy (JArr xs) = (xs \<noteq> [])"
| "truthy (JObj kv) = (kv \<noteq> [])"

fun getitem :: "json \<Rightarrow> string \<Rightarrow> error + json" where
  "getitem (JObj kv) k = (case map_of kv k of None \<Rightarrow> Inl (KeyError k) | Some v \<Rightarrow> Inr v)"
| "getitem (JArr xs) k = Inl (TypeError ''list indices must be integers or slices, not str'')"
| "getitem (JStr s) k = Inl (TypeError ''string indices must be integers'')"
| "getitem v k = Inl (TypeError ''object is not subscriptable'')"

fun getidx :: "json \<Rightarrow> nat \<Rightarrow> error + json" where
  "getidx (JArr xs) i = item xs i"
| "getidx (JStr s) i =
     (if i < length s then Inr (JStr [s ! i]) else Inl (IndexError ''string index out of range''))"
| "getidx (JObj kv) i = Inl (KeyError (str_nat i))"
| "getidx v i = Inl (TypeError ''object is not subscriptable'')"

fun starts_with :: "string \<Rightarrow> string \<Rightarrow> bool" where
  "starts_with [] s = True"
| "starts_with (p # ps) [] = False"
| "starts_with (p # ps) (c # cs) = (p = c \<and> starts_with ps cs)"

fun contains_str :: "string \<Rightarrow> string \<Rightarrow> bool" where
  "contains_str p [] = (p = [])"
| "contains_str p (c # cs) = (starts_with p (c # cs) \<or> contains_str p cs)"

text \<open>\<^verbatim>\<open>k in v\<close> for a string \<open>k\<close>.\<close>

fun contains :: "string \<Rightarrow> json \<Rightarrow> error + bool" where
  "contains k (JObj kv) = Inr (k \<in> set (map fst kv))"
| "contains k (JArr xs) = Inr (JStr k \<in> set xs)"
| "contains k (JStr s) = Inr (contains_str k s)"
| "contains k v = Inl (TypeError ''argument is not iterable'')"

text \<open>\<^verbatim>\<open>for x in v\<close>.\<close>

fun json_iter :: "json \<Rightarrow> error + json list" where
  "json_iter (JArr xs) = Inr xs"
| "json_iter (JObj kv) = Inr (map (\<lambda>(k, v). JStr k) kv)"
| "json_iter (JStr s) = Inr (map (\<lambda>c. JStr [c]) s)"
| "json_iter v = Inl (TypeError ''object is not iterable'')"

text \<open>\<^verbatim>\<open>str.replace(old, new)\<close>; \<open>old\<close> is non-empty at every call site.\<close>

function replace_str :: "string \<Rightarrow> string \<Rightarrow> string \<Rightarrow> string" where
  "replace_str old new [] = []"
| "replace_str old new (c # cs) =
     (if old \<noteq> [] \<and> starts_with old (c # cs)
      then new @ replace_str old new (drop (length old) (c # cs))
      else c # replace_str old new cs)"
  by pat_completeness auto
termination
  by (relation "measure (\<lambda>(old, new, s). length s)") auto

definition lower_char :: "char \<Rightarrow> char" where
  "lower_char c =
     (let n = (of_char c :: nat)
      in if (65 \<le> n \<and> n \<le> 90) \<or> (192 \<le> n \<and> n \<le> 222 \<and> n \<noteq> 215) then char_of (n + 32) else c)"

definition str_lower :: "string \<Rightarrow> string" where
  "str_lower s = map lower_char s"

fun json_replace :: "json \<Rightarrow> string \<Rightarrow> string \<Rightarrow> error + string" where
  "json_replace (JStr s) old new = Inr (replace_str old new s)"
| "json_replace v old new = Inl (AttributeError ''object has no attribute replace'')"

fun json_round :: "json \<Rightarrow> error + int" where
  "json_round (JInt n) = Inr n"
| "json_round (JBool b) = Inr (if b then 1 else 0)"
| "json_round (JFloat f) = py_round f"
| "json_round v = Inl (TypeError ''type does not define __round__ method'')"

text \<open>\<^verbatim>\<open>d.get(k)\<close>.\<close>

fun json_get :: "json \<Rightarrow> string \<Rightarrow> error + json" where
  "json_get (JObj kv) k = Inr (case map_of kv k of None \<Rightarrow> JNull | Some v \<Rightarrow> v)"
| "json_get v k = Inl (AttributeError ''object has no attribute get'')"

text \<open>Reading an attribute that may not have been assigned yet.\<close>

definition attr :: "string \<Rightarrow> 'a option \<Rightarrow> error + 'a" where
  "attr name v =
     (case v of None \<Rightarrow> Inl (AttributeError (''object has no attribute '' @ name)) | Some x \<Rightarrow> Inr x)"

section \<open>The environment\<close>

text \<open>
  What lies outside the repository is a parameter: the HTTP transport with the remote
  catalogue behind it, the media lookup \<^verbatim>\<open>extract_info\<close>, the operating system that
  starts and terminates the decoding process of an audio handle, and the library functions
  \<^verbatim>\<open>urllib.parse.quote\<close>, \<^verbatim>\<open>str.upper\<close> (whose results can leave the 8-bit range),
  \<^verbatim>\<open>str()\<close> of a decoded value inside an f-string, and \<^verbatim>\<open>datetime.strptime\<close> with the
  module's format. \<open>'d\<close> is the type of parsed dates.
\<close>

text \<open>
  Modelled from the spec: the audio handle \<^verbatim>\<open>discord.FFmpegPCMAudio\<close> of the playback
  library, whose class is not part of the repository. The handle that \<open>load\<close> binds is
  live: it owns the decoding process opened for the stream locator. The field \<open>process\<close>
  is that process, \<open>None\<close> once it has been released.
\<close>

record ffmpeg_audio =
  process :: "nat option"

record response =
  status :: int
  json_body :: "error + json"

record 'd env =
  http :: "string \<Rightarrow> error + response"
  extract_info :: "string \<Rightarrow> error + json"
  ffmpeg :: "string \<Rightarrow> error + ffmpeg_audio"
  kill :: "nat \<Rightarrow> error + unit"
  quote :: "string \<Rightarrow> string"
  upper :: "string \<Rightarrow> string"
  fmt :: "json \<Rightarrow> string"
  strptime :: "json \<Rightarrow> error + 'd"

text \<open>
  Modelled from the spec: the \<^verbatim>\<open>cleanup\<close> of the audio handle, which releases the decode
  resource exactly once. In the playback library the method reads
  \<^verbatim>\<open>
  proc = self._process
  if proc is None:
      return
  proc.kill()
  ...
  self._process = None
  \<close>
  so a handle whose process has been released already is left as it is; otherwise the
  process is terminated, which is up to the operating system and may raise, and then
  forgotten.
\<close>

definition FFmpegPCMAudio_cleanup :: "'d env \<Rightarrow> ffmpeg_audio \<Rightarrow> error + ffmpeg_audio" where
  "FFmpegPCMAudio_cleanup e h =
     (case process h of
        None \<Rightarrow> Inr h
      | Some proc \<Rightarrow> bindE (kill e proc) (\<lambda>_. Inr (h\<lparr>process := None\<rparr>)))"

text \<open>A computation that may issue requests threads the list of the URLs requested so
  far, and ends in a value or an exception.\<close>

type_synonym 'a net = "string list \<Rightarrow> (error + 'a) \<times> string list"

definition ret :: "'a \<Rightarrow> 'a net" where
  "ret x = (\<lambda>reqs. (Inr x, reqs))"

definition raise :: "error \<Rightarrow> 'a net" where
  "raise e = (\<lambda>reqs. (Inl e, reqs))"

definition lift :: "error + 'a \<Rightarrow> 'a net" where
  "lift r = (\<lambda>reqs. (r, reqs))"

definition bindN :: "'a net \<Rightarrow> ('a \<Rightarrow> 'b net) \<Rightarrow> 'b net" where
  "bindN m f =
     (\<lambda>reqs. case m reqs of (Inl e, reqs') \<Rightarrow> (Inl e, reqs') | (Inr x, reqs') \<Rightarrow> f x reqs')"

definition session_get :: "'d env \<Rightarrow> string \<Rightarrow> response net" where
  "session_get e u = (\<lambda>reqs. (http e u, reqs @ [u]))"

text \<open>The block \<^verbatim>\<open>async with self.session.get(url) as r:\<close> with its status check.\<close>

definition fetch_json :: "'d env \<Rightarrow> string \<Rightarrow> json net" where
  "fetch_json e u =
     bindN (session_get e u) (\<lambda>r.
       if 200 \<le> status r \<and> status r < 300 then lift (json_body r)
       else raise (ValueError (''Invalid response code: '' @ [backtick] @ str_int (status r) @ [backtick])))"

section \<open>The catalogue resolver\<close>

definition BASE_URI :: string where
  "BASE_URI = ''https://connect.monstercat.com/api''"

text \<open>The argument \<open>search\<close> is a string, so the \<^verbatim>\<open>TypeError\<close> branch of the first test
  is not reachable.\<close>

definition get_release :: "'d env \<Rightarrow> string \<Rightarrow> int \<Rightarrow> (json \<times> json) net" where
  "get_release e search limit =
     (if search = [] then raise (ValueError ''Nothing to search.'')
      else
        bindN
          (bindN (lift (is_catalog_id (upper e search))) (\<lambda>is_id.
             if is_id
             then
               bindN (fetch_json e (BASE_URI @ ''/catalog/release/'' @ upper e search)) (\<lambda>data.
               bindN (lift (contains ''error'' data)) (\<lambda>has_error.
               bindN (if has_error
                      then bindN (lift (getitem data ''message'')) (\<lambda>msg.
                             if msg \<noteq> JStr ''The specified resource was not found.''
                             then raise (ValueError (fmt e msg))
                             else raise (ValueError ''Release not found.''))
                      else ret ()) (\<lambda>_.
               bindN (lift (getitem data ''_id'')) (\<lambda>ident.
               bindN (fetch_json e (BASE_URI @ ''/catalog/release/'' @ fmt e ident @ ''/tracks''))
                 (\<lambda>tracks. ret (data, tracks))))))
             else
               (let song = quote e (str_lower search);
                    search = gen_search song [''title'', ''renderedArtists'', ''catalogId'']
                in
                 bindN (fetch_json e (BASE_URI @ ''/catalog/release'' @ search @ ''&limit='' @ str_int limit))
                   (\<lambda>data.
                 bindN (lift (getitem data ''results'')) (\<lambda>results.
                   if \<not> truthy results
                   then raise (ValueError (''No results found for '' @ [backtick] @ search @ [backtick]))
                   else
                     bindN (lift (getidx results 0)) (\<lambda>data.
                     bindN (lift (getitem data ''_id'')) (\<lambda>ident.
                     bindN (fetch_json e (BASE_URI @ ''/catalog/release/'' @ fmt e ident @ ''/tracks''))
                       (\<lambda>tracks. ret (data, tracks)))))))))
          (\<lambda>(data, tracks).
             bindN (lift (getitem tracks ''results'')) (\<lambda>results. ret (data, results))))"

text \<open>In \<open>get_artist\<close> the emptiness test reads \<^verbatim>\<open>elif not str\<close>: its operand is the
  builtin type \<^verbatim>\<open>str\<close>, an object that is always true.\<close>

definition str_type_truthy :: bool where
  "str_type_truthy = True"

definition get_artist :: "'d env \<Rightarrow> string \<Rightarrow> int \<Rightarrow> (json \<times> json) net" where
  "get_artist e search limit =
     (if \<not> str_type_truthy then raise (ValueError ''Nothing to search.'')
      else
        (let artist = quote e (replace_str '' '' ''-'' (replace_str '' & '' ''-'' (str_lower search)))
         in
          bindN (fetch_json e (BASE_URI @ ''/catalog/artist/'' @ artist)) (\<lambda>data.
          bindN (lift (contains ''error'' data)) (\<lambda>has_error.
          bindN (if has_error
                 then bindN (lift (getitem data ''message'')) (\<lambda>msg.
                        if msg \<noteq> JStr ''Artist not found.''
                        then raise (ValueError (fmt e msg))
                        else
                          (let artist = quote e search;
                               search = gen_search artist [''name'', ''vanityUri'']
                           in
                            bindN (fetch_json e (BASE_URI @ ''/catalog/artist'' @ search @ ''&limit='' @ str_int limit))
                              (\<lambda>data.
                            bindN (lift (getitem data ''results'')) (\<lambda>results.
                              if \<not> truthy results then raise (ValueError ''Artist not found.'')
                              else lift (getidx results 0)))))
                 else ret data) (\<lambda>data.
          bindN (lift (getitem data ''vanityUri'')) (\<lambda>vanity.
          bindN (fetch_json e (BASE_URI @ ''/catalog/artist/'' @ fmt e vanity @ ''/releases'')) (\<lambda>releases.
          bindN (lift (getitem releases ''results'')) (\<lambda>results.
            ret (data, results)))))))))"

section \<open>The streaming sources\<close>

text \<open>
  The attributes that \<^verbatim>\<open>MCSource.__init__\<close> and its subclasses assign. An attribute that
  is assigned only later, or deleted, is an option: \<open>None\<close> means that the object has no
  such attribute. The executor, the event loop and the creation time stamp play no part
  in what follows and are left out.
\<close>

record mc_source =
  track :: string
  has_connect_data :: bool
  stype :: string
  data_attr :: "json option"
  url :: "json option"
  stream_url :: "string option"
  title :: "json option"
  duration :: "int option"
  thumb :: "string option"
  source :: "ffmpeg_audio option"

record 'd single_source = mc_source +
  release_date :: "'d option"
  artists :: "json option"
  bpm :: "int option"
  genre :: "json option"

record long_source = mc_source +
  has_yt_data :: bool
  tracks :: "(int \<times> string \<times> int \<times> int) list option"

definition BLOBS :: string where
  "BLOBS = ''https://s3.amazonaws.com/data.monstercat.com/blobs/''"

definition YOUTUBE_REGEX :: pattern where
  "YOUTUBE_REGEX = (no_flags, seqs [Bol, scheme, www, lits ''youtube.com''])"

definition wrong_type_multi :: error where
  "wrong_type_multi =
     ValueError ''Release detected to be an album, or album-like. Please use MCMultiSource.''"

definition wrong_type_long :: error where
  "wrong_type_long = ValueError ''Release detected to be long. Please use MCLongSource.''"

definition MCSingleSource_set_connect_data ::
  "'d env \<Rightarrow> 'd single_source \<Rightarrow> json \<Rightarrow> json \<Rightarrow> error + 'd single_source" where
  "MCSingleSource_set_connect_data e self data trks =
     bindE (getitem data ''type'') (\<lambda>ty.
       if ty \<in> set (map JStr MULTI_TYPES) then Inl wrong_type_multi
       else
         bindE (getitem data ''type'') (\<lambda>ty.
           if ty \<in> set (map JStr LONG_TYPES) then Inl wrong_type_long
           else
             bindE (getidx trks 0) (\<lambda>trk.
             bindE (getitem trk ''albums'') (\<lambda>albums.
             bindE (getidx albums 0) (\<lambda>album.
             bindE (getitem album ''streamHash'') (\<lambda>hash.
             bindE (bindE (getitem data ''releaseDate'') (strptime e)) (\<lambda>date.
             bindE (getitem data ''title'') (\<lambda>ti.
             bindE (getitem data ''renderedArtists'') (\<lambda>ar.
             bindE (getitem data ''coverUrl'') (\<lambda>cover.
             bindE (json_replace cover '' '' ''%20'') (\<lambda>th.
             bindE (bindE (getitem trk ''bpm'') json_round) (\<lambda>bp.
             bindE (bindE (getitem trk ''duration'') json_round) (\<lambda>du.
             bindE (json_get trk ''genre'') (\<lambda>g.
             bindE (if truthy g then Inr g
                    else bindE (getitem trk ''genres'') (\<lambda>gs. getidx gs 0)) (\<lambda>ge.
               Inr (self\<lparr>stream_url := Some (BLOBS @ fmt e hash),
                         release_date := Some date,
                         title := Some ti,
                         artists := Some ar,
                         thumb := Some (th @ ''?image_width=256''),
                         bpm := Some bp,
                         duration := Some du,
                         genre := Some ge,
                         has_connect_data := True\<rparr>))))))))))))))))"

text \<open>\<^verbatim>\<open>MCSingleSource(track, data=None, tracks=None)\<close>; an omitted argument is \<open>JNull\<close>.\<close>

definition MCSingleSource_init ::
  "'d env \<Rightarrow> string \<Rightarrow> json \<Rightarrow> json \<Rightarrow> error + 'd single_source" where
  "MCSingleSource_init e trk data trks =
     (let self = \<lparr>track = trk, has_connect_data = False, stype = ''single'',
                  data_attr = Some data, url = None, stream_url = None, title = None,
                  duration = None, thumb = None, source = None,
                  release_date = None, artists = None, bpm = None, genre = None\<rparr>
      in if truthy data \<and> truthy trks then MCSingleSource_set_connect_data e self data trks
         else Inr self)"

text \<open>\<^verbatim>\<open>[x for x in urls if re.search(..., x)]\<close>\<close>

fun youtube_urls :: "json list \<Rightarrow> error + json list" where
  "youtube_urls [] = Inr []"
| "youtube_urls (x # xs) =
     bindE (case x of JStr s \<Rightarrow> Inr (re_search YOUTUBE_REGEX s \<noteq> None)
                    | _ \<Rightarrow> Inl (TypeError ''expected string or bytes-like object'')) (\<lambda>c.
     bindE (youtube_urls xs) (\<lambda>rest. Inr (if c then x # rest else rest)))"

definition media_lookup :: "'d env \<Rightarrow> json option \<Rightarrow> json option \<Rightarrow> error + json" where
  "media_lookup e ar ti =
     bindE (attr ''artists'' ar) (\<lambda>a.
     bindE (attr ''title'' ti) (\<lambda>t.
     bindE (extract_info e (fmt e a @ '' - '' @ fmt e t)) (\<lambda>data.
     bindE (contains ''entries'' data) (\<lambda>has_entries.
     bindE (if has_entries then bindE (getitem data ''entries'') (\<lambda>es. getidx es 0)
            else Inr data) (\<lambda>data.
       getitem data ''webpage_url'')))))"

definition MCSingleSource_get_info ::
  "'d env \<Rightarrow> 'd single_source \<Rightarrow> 'd single_source net" where
  "MCSingleSource_get_info e self =
     bindN (if \<not> has_connect_data self
            then bindN (get_release e (track self) 10) (\<lambda>(data, trks).
                   lift (MCSingleSource_set_connect_data e (self\<lparr>data_attr := Some data\<rparr>) data trks))
            else ret self) (\<lambda>self.
       if url self = None
       then
         bindN (lift (attr ''_data'' (data_attr self))) (\<lambda>data.
         bindN (if truthy data
                then lift (bindE (getitem data ''urls'') (\<lambda>us. bindE (json_iter us) youtube_urls))
                else ret []) (\<lambda>found.
           if found \<noteq> []
           then bindN (lift (item found 0)) (\<lambda>u. ret (self\<lparr>url := Some u, data_attr := None\<rparr>))
           else bindN (lift (media_lookup e (artists self) (title self))) (\<lambda>u.
                  ret (self\<lparr>url := Some u\<rparr>))))
       else ret self)"

definition MCSingleSource_load ::
  "'d env \<Rightarrow> 'd single_source \<Rightarrow> error + 'd single_source" where
  "MCSingleSource_load e self =
     bindE (attr ''stream_url'' (stream_url self)) (\<lambda>u.
     bindE (ffmpeg e u) (\<lambda>h. Inr (self\<lparr>source := Some h\<rparr>)))"

definition MCSingleSource_cleanup ::
  "'d env \<Rightarrow> 'd single_source \<Rightarrow> error + 'd single_source" where
  "MCSingleSource_cleanup e self =
     bindE (attr ''source'' (source self)) (\<lambda>h.
     bindE (FFmpegPCMAudio_cleanup e h) (\<lambda>h'. Inr (self\<lparr>source := Some h'\<rparr>)))"

definition MCLongSource_init :: "string \<Rightarrow> long_source" where
  "MCLongSource_init trk =
     \<lparr>track = trk, has_connect_data = False, stype = ''long'',
      data_attr = Some JNull, url = None, stream_url = None, title = None,
      duration = None, thumb = None, source = None,
      has_yt_data = False, tracks = None\<rparr>"

text \<open>\<^verbatim>\<open>[(parse_duration(x), y) for x, y in tracks]\<close>\<close>

fun parse_stamps :: "(string \<times> string) list \<Rightarrow> error + (int \<times> string) list" where
  "parse_stamps [] = Inr []"
| "parse_stamps ((x, y) # rest) =
     bindE (parse_duration x) (\<lambda>stamp.
     bindE (parse_stamps rest) (\<lambda>rest'. Inr ((stamp, y) # rest')))"

text \<open>Calling \<^verbatim>\<open>.values()\<close> on a \<^verbatim>\<open>list\<close>, which has no such method.\<close>

definition list_values :: "'a list \<Rightarrow> error + 'a list" where
  "list_values xs = Inl (AttributeError ''list object has no attribute values'')"

text \<open>\<^verbatim>\<open>d[k] = v\<close> on a dictionary kept in insertion order.\<close>

fun dict_set :: "'k \<Rightarrow> 'v \<Rightarrow> ('k \<times> 'v) list \<Rightarrow> ('k \<times> 'v) list" where
  "dict_set k v [] = [(k, v)]"
| "dict_set k v ((k', v') # d) = (if k = k' then (k, v) # d else (k', v') # dict_set k v d)"

text \<open>The body of the loop of \<open>set_yt_data\<close>, on the running time and the dictionary.\<close>

definition segment_step ::
  "int \<times> (int \<times> string \<times> int \<times> int) list \<Rightarrow> int \<times> string \<Rightarrow>
   int \<times> (int \<times> string \<times> int \<times> int) list" where
  "segment_step acc entry =
     (case acc of (time, d) \<Rightarrow>
        (case entry of (stamp, name) \<Rightarrow>
           (let old_time = time;
                time = time + stamp
            in (time, dict_set (stamp - old_time) (name, stamp, stamp - old_time) d))))"

definition MCLongSource_set_yt_data :: "long_source \<Rightarrow> json \<Rightarrow> error + long_source" where
  "MCLongSource_set_yt_data self data =
     bindE (getitem data ''description'') (\<lambda>description.
     bindE (case description of JStr s \<Rightarrow> Inr (findall2 TRACKLIST_REGEX s)
                              | _ \<Rightarrow> Inl (TypeError ''expected string or bytes-like object'')) (\<lambda>trks.
     bindE (parse_stamps trks) (\<lambda>trks.
     bindE (getitem data ''webpage_url'') (\<lambda>u.
       (let self = self\<lparr>url := Some u, tracks := Some []\<rparr>
        in bindE (list_values trks) (\<lambda>vals.
             Inr (self\<lparr>tracks := Some (snd (foldl segment_step (0, []) vals)),
                       has_yt_data := True\<rparr>)))))))"

definition MCLongSource_load :: "'d env \<Rightarrow> long_source \<Rightarrow> error + long_source" where
  "MCLongSource_load e self =
     bindE (attr ''stream_url'' (stream_url self)) (\<lambda>u.
     bindE (ffmpeg e u) (\<lambda>h. Inr (self\<lparr>source := Some h\<rparr>)))"

definition MCLongSource_cleanup :: "'d env \<Rightarrow> long_source \<Rightarrow> error + long_source" where
  "MCLongSource_cleanup e self =
     bindE (attr ''source'' (source self)) (\<lambda>h.
     bindE (FFmpegPCMAudio_cleanup e h) (\<lambda>h'. Inr (self\<lparr>source := Some h'\<rparr>)))"

text \<open>The specification's reading of the codec's grammar \<^verbatim>\<open>^(\d{2}:)?\d{2}:\d{2}$\<close> as a
  match of the whole string: exactly \<^verbatim>\<open>DD:DD\<close> or \<^verbatim>\<open>DD:DD:DD\<close>. The second predicate
  is such a string followed by one newline.\<close>

definition mmss :: "string \<Rightarrow> bool" where
  "mmss s =
     (length s = 5 \<and> is_digit (s ! 0) \<and> is_digit (s ! 1) \<and> s ! 2 = CHR '':'' \<and>
      is_digit (s ! 3) \<and> is_digit (s ! 4))"

definition exact_duration :: "string \<Rightarrow> bool" where
  "exact_duration s =
     (mmss s \<or>
      (length s = 8 \<and> is_digit (s ! 0) \<and> is_digit (s ! 1) \<and> s ! 2 = CHR '':'' \<and> mmss (drop 3 s)))"

definition exact_duration_nl :: "string \<Rightarrow> bool" where
  "exact_duration_nl s = (s \<noteq> [] \<and> last s = newline \<and> exact_duration (butlast s))"

section \<open>Concrete inputs\<close>

text \<open>The description of the specification's segmentation example, inside a media-lookup
  result.\<close>

definition example_description :: string where
  "example_description =
     ''00:00 Intro'' @ [newline] @ ''03:15 Track A'' @ [newline] @ ''07:40 Track B''"

definition example_video :: json where
  "example_video =
     JObj [(''description'', JStr example_description),
           (''webpage_url'', JStr ''https://www.youtube.com/watch?v=x'')]"

definition horizon_example :: string where
  "horizon_example =
     ''https://prf.hn/click/camref:abc/pubref:def/destination:https%3A%2F%2Fopen.spotify.com%2Ftrack%2F1''"

text \<open>An environment to run the resolver and the sources in: the catalogue answers every
  request with status 404, every audio handle is opened on the process 4242, and
  terminating a process succeeds.\<close>

definition demo_env :: "unit env" where
  "demo_env =
     \<lparr>http = (\<lambda>u. Inr \<lparr>status = 404, json_body = Inr JNull\<rparr>),
      extract_info = (\<lambda>q. Inr (JObj [(''webpage_url'', JStr ''https://youtu.be/x'')])),
      ffmpeg = (\<lambda>u. Inr \<lparr>process = Some 4242\<rparr>),
      kill = (\<lambda>proc. Inr ()),
      quote = (\<lambda>s. s),
      upper = (\<lambda>s. s),
      fmt = (\<lambda>v. case v of JStr s \<Rightarrow> s | _ \<Rightarrow> ''?''),
      strptime = (\<lambda>v. Inr ())\<rparr>"

definition album_release :: json where
  "album_release = JObj [(''type'', JStr ''Album''), (''title'', JStr ''Monstercat 025'')]"

definition fresh_long :: long_source where
  "fresh_long = MCLongSource_init ''Podcast 100''"

definition fresh_single :: "unit single_source" where
  "fresh_single =
     \<lparr>track = ''Pegboard Nerds - Hero'', has_connect_data = False, stype = ''single'',
      data_attr = Some JNull, url = None, stream_url = None, title = None,
      duration = None, thumb = None, source = None,
      release_date = None, artists = None, bpm = None, genre = None\<rparr>"

definition loaded_single :: "unit single_source" where
  "loaded_single = fresh_single\<lparr>stream_url := Some BLOBS, source := Some \<lparr>process = Some 4242\<rparr>\<rparr>"

definition loaded_long :: long_source where
  "loaded_long = fresh_long\<lparr>stream_url := Some BLOBS, source := Some \<lparr>process = Some 4242\<rparr>\<rparr>"

definition released :: ffmpeg_audio where
  "released = \<lparr>process = None\<rparr>"

definition no_source :: error where
  "no_source = AttributeError ''object has no attribute source''"

text \<open>A computation only ever extends the list of requests.\<close>

definition grows :: "'a net \<Rightarrow> bool" where
  "grows m = (\<forall>reqs. \<exists>more. snd (m reqs) = reqs @ more)"

section \<open>Verified properties\<close>

subsection \<open>Characters and digits\<close>

lemma not_digit_colon: "is_digit c \<Longrightarrow> c \<noteq> CHR '':''"
  by (auto simp: is_digit_def)

lemma not_digit_nl: "is_digit c \<Longrightarrow> c \<noteq> newline"
  by (auto simp: is_digit_def newline_def)

lemma digit_not_space: "is_digit c \<Longrightarrow> \<not> is_space c"
  by (auto simp: is_digit_def is_space_def)

lemma digit_not_sign: "is_digit c \<Longrightarrow> c \<noteq> CHR ''-'' \<and> c \<noteq> CHR ''+'' \<and> c \<noteq> CHR ''_''"
  by (auto simp: is_digit_def)

lemma newline_space: "is_space newline"
  by (simp add: is_space_def newline_def)

lemma newline_not_colon: "newline \<noteq> CHR '':''"
  by (simp add: newline_def)

lemma is_digit_digit_char: "d < 10 \<Longrightarrow> is_digit (digit_char d)"
  by (simp add: is_digit_def digit_char_def)

lemma digit_val_digit_char: "d < 10 \<Longrightarrow> digit_val (digit_char d) = d"
  by (simp add: digit_val_def digit_char_def)

lemma str_nat_two:
  "n < 100 \<Longrightarrow>
   replicate (2 - length (str_nat n)) CHR ''0'' @ str_nat n = [digit_char (n div 10), digit_char (n mod 10)]"
proof (cases "n < 10")
  case True
  have "CHR ''0'' = digit_char 0"
    unfolding digit_char_def by (rule of_char_eqI [where ?'a = nat]) simp
  with True show ?thesis
    by (simp add: str_nat.simps [of n])
next
  case False
  assume "n < 100"
  then have "n div 10 < 10" by simp
  with False show ?thesis
    by (simp add: str_nat.simps [of n] str_nat.simps [of "n div 10"])
qed

lemma fmt02_two:
  "0 \<le> n \<Longrightarrow> n < 100 \<Longrightarrow> fmt02 n = [digit_char (nat n div 10), digit_char (nat n mod 10)]"
  by (simp add: fmt02_def str_nat_two)

lemma two_digits:
  "0 \<le> n \<Longrightarrow> n < 100 \<Longrightarrow>
   int (10 * digit_val (digit_char (nat n div 10)) + digit_val (digit_char (nat n mod 10))) = n"
  by (simp add: digit_val_digit_char)

lemma py_int_two:
  "is_digit a \<Longrightarrow> is_digit b \<Longrightarrow> py_int [a, b] = Inr (int (10 * digit_val a + digit_val b))"
  using digit_not_sign [of a] digit_not_sign [of b]
  by (simp add: py_int_def Let_def strip_def dec_value_def digit_not_space)

lemma py_int_two_nl:
  "is_digit a \<Longrightarrow> is_digit b \<Longrightarrow> py_int [a, b, newline] = Inr (int (10 * digit_val a + digit_val b))"
  using digit_not_sign [of a] digit_not_sign [of b]
  by (simp add: py_int_def Let_def strip_def dec_value_def digit_not_space newline_space)

subsection \<open>What the duration pattern accepts\<close>

text \<open>The matcher, run on \<open>DURATION_REGEX\<close> from the start of an arbitrary string, succeeds
  on four shapes only: the two of the grammar, and each of them followed by one newline
  (Python's \<^verbatim>\<open>$\<close> also matches just before a final newline).\<close>

lemma dur_ms:
  "ms (fst DURATION_REGEX) (snd DURATION_REGEX) ([], s, []) =
     (case s of
        [a, b, c, d, e] \<Rightarrow>
          if is_digit a \<and> is_digit b \<and> c = CHR '':'' \<and> is_digit d \<and> is_digit e
          then [(rev s, [], [])] else []
      | [a, b, c, d, e, f] \<Rightarrow>
          if is_digit a \<and> is_digit b \<and> c = CHR '':'' \<and> is_digit d \<and> is_digit e \<and> f = newline
          then [(rev (butlast s), [newline], [])] else []
      | [a, b, c, d, e, f, g, h] \<Rightarrow>
          if is_digit a \<and> is_digit b \<and> c = CHR '':'' \<and> is_digit d \<and> is_digit e \<and>
             f = CHR '':'' \<and> is_digit g \<and> is_digit h
          then [(rev s, [], [])] else []
      | [a, b, c, d, e, f, g, h, i] \<Rightarrow>
          if is_digit a \<and> is_digit b \<and> c = CHR '':'' \<and> is_digit d \<and> is_digit e \<and>
             f = CHR '':'' \<and> is_digit g \<and> is_digit h \<and> i = newline
          then [(rev (butlast s), [newline], [])] else []
      | _ \<Rightarrow> [])"
  by (auto simp: DURATION_REGEX_def no_flags_def rep_def numeral_2_eq_2 step_if_def
        at_bol_def at_eol_def
      dest: not_digit_colon not_digit_nl
      split: list.splits)

lemma exact_duration_shapes:
  "exact_duration s =
     (case s of
        [a, b, c, d, e] \<Rightarrow>
          is_digit a \<and> is_digit b \<and> c = CHR '':'' \<and> is_digit d \<and> is_digit e
      | [a, b, c, d, e, f, g, h] \<Rightarrow>
          is_digit a \<and> is_digit b \<and> c = CHR '':'' \<and> is_digit d \<and> is_digit e \<and>
          f = CHR '':'' \<and> is_digit g \<and> is_digit h
      | _ \<Rightarrow> False)"
  by (auto simp: exact_duration_def mmss_def split: list.splits)

lemma duration_match_iff:
  "(re_match DURATION_REGEX s \<noteq> None) = (exact_duration s \<or> exact_duration_nl s)"
  unfolding re_match_def dur_ms exact_duration_nl_def exact_duration_shapes
  by (auto split: list.splits dest: not_digit_nl not_digit_colon)

subsection \<open>Decoding the accepted shapes\<close>

lemma parse_mmss:
  "is_digit a \<Longrightarrow> is_digit b \<Longrightarrow> is_digit d \<Longrightarrow> is_digit e \<Longrightarrow>
   parse_duration [a, b, CHR '':'', d, e] =
     Inr (int (10 * digit_val a + digit_val b) * 60 + int (10 * digit_val d + digit_val e))"
  by (simp add: parse_duration_def re_match_def dur_ms not_digit_colon item_def bindE_def
      py_int_two)

lemma parse_hhmmss:
  "is_digit a \<Longrightarrow> is_digit b \<Longrightarrow> is_digit d \<Longrightarrow> is_digit e \<Longrightarrow> is_digit g \<Longrightarrow> is_digit h \<Longrightarrow>
   parse_duration [a, b, CHR '':'', d, e, CHR '':'', g, h] =
     Inr (int (10 * digit_val a + digit_val b) * 60 * 60 +
          int (10 * digit_val d + digit_val e) * 60 +
          int (10 * digit_val g + digit_val h))"
  by (simp add: parse_duration_def re_match_def dur_ms not_digit_colon item_def bindE_def
      py_int_two)

lemma parse_mmss_nl:
  "is_digit a \<Longrightarrow> is_digit b \<Longrightarrow> is_digit d \<Longrightarrow> is_digit e \<Longrightarrow>
   parse_duration [a, b, CHR '':'', d, e, newline] =
     Inr (int (10 * digit_val a + digit_val b) * 60 + int (10 * digit_val d + digit_val e))"
  by (simp add: parse_duration_def re_match_def dur_ms not_digit_colon item_def bindE_def
      py_int_two py_int_two_nl newline_not_colon)

lemma parse_hhmmss_nl:
  "is_digit a \<Longrightarrow> is_digit b \<Longrightarrow> is_digit d \<Longrightarrow> is_digit e \<Longrightarrow> is_digit g \<Longrightarrow> is_digit h \<Longrightarrow>
   parse_duration [a, b, CHR '':'', d, e, CHR '':'', g, h, newline] =
     Inr (int (10 * digit_val a + digit_val b) * 60 * 60 +
          int (10 * digit_val d + digit_val e) * 60 +
          int (10 * digit_val g + digit_val h))"
  by (simp add: parse_duration_def re_match_def dur_ms not_digit_colon item_def bindE_def
      py_int_two py_int_two_nl newline_not_colon)

lemma gen_duration_int:
  "gen_duration (PInt s) =
     Inr (if s div 60 div 60 \<noteq> 0
          then fmt02 (s div 60 div 60) @ '':'' @ fmt02 (s div 60 mod 60) @ '':'' @ fmt02 (s mod 60)
          else fmt02 (s div 60 mod 60) @ '':'' @ fmt02 (s mod 60))"
  by (simp add: gen_duration_def bindE_def divmod_def)

subsection \<open>The round trip of the codec\<close>

text \<open>
  C2. For every integer \<open>s\<close> with \<open>0 \<le> s < 360000\<close>, encoding \<open>s\<close> with
  \<open>gen_duration\<close> succeeds and decoding the result with \<open>parse_duration\<close> returns \<open>s\<close>.
\<close>

theorem duration_roundtrip:
  assumes "0 \<le> s" and "s < 360000"
  shows "bindE (gen_duration (PInt s)) parse_duration = Inr s"
proof -
  let ?h = "s div 60 div 60" and ?m = "s div 60 mod 60" and ?c = "s mod 60"
  have h: "0 \<le> ?h" "?h < 100" and m: "0 \<le> ?m" "?m < 100" and c: "0 \<le> ?c" "?c < 100"
    using assms by (simp_all add: pos_imp_zdiv_nonneg_iff zdiv_zmult2_eq)
  have dec: "?h * 60 * 60 + ?m * 60 + ?c = s"
    by presburger
  have dig: "\<And>n. 0 \<le> n \<Longrightarrow> n < 100 \<Longrightarrow>
      is_digit (digit_char (nat n div 10)) \<and> is_digit (digit_char (nat n mod 10))"
    by (simp add: is_digit_digit_char)
  show ?thesis
  proof (cases "?h = 0")
    case True
    have "parse_duration (fmt02 ?m @ '':'' @ fmt02 ?c) = Inr (?m * 60 + ?c)"
      using dig [OF m] dig [OF c]
      by (simp add: fmt02_two m c parse_mmss two_digits del: of_nat_add of_nat_mult)
    with True dec show ?thesis
      by (simp add: gen_duration_int bindE_def)
  next
    case False
    have "parse_duration (fmt02 ?h @ '':'' @ fmt02 ?m @ '':'' @ fmt02 ?c) =
        Inr (?h * 60 * 60 + ?m * 60 + ?c)"
      using dig [OF h] dig [OF m] dig [OF c]
      by (simp add: fmt02_two h m c parse_hhmmss two_digits del: of_nat_add of_nat_mult)
    with False dec show ?thesis
      by (simp add: gen_duration_int bindE_def)
  qed
qed

theorem duration_roundtrip_witness:
  "(0::int) \<le> 3725 \<and> (3725::int) < 360000 \<and>
   bindE (gen_duration (PInt 3725)) parse_duration = Inr 3725"
  using duration_roundtrip [of 3725] by simp

subsection \<open>Rejected durations\<close>

text \<open>
  C3. The claim: every string that is not an exact whole-string match of
  \<^verbatim>\<open>^(\d{2}:)?\d{2}:\d{2}$\<close> makes \<open>parse_duration\<close> fail with the format error. The
  code: \<^verbatim>\<open>"12:34\n"\<close> is no exact match, and not of the format \<^verbatim>\<open>XX:XX\<close> or
  \<^verbatim>\<open>XX:XX:XX\<close> that the function's own error message requires, yet
  \<open>DURATION_REGEX.match\<close> accepts it, \<^verbatim>\<open>$\<close> matching just before a final newline, and
  \<open>parse_duration\<close> returns 754.
\<close>

theorem parse_duration_trailing_newline:
  "\<not> exact_duration (''12:34'' @ [newline]) \<and> parse_duration (''12:34'' @ [newline]) = Inr 754"
  by code_simp

text \<open>Among the strings of code points below 256, the exact matches followed by one newline
  are the only strings on which the function departs from the claim: it rejects every
  other string that is no exact match, and it accepts the exact matches.\<close>

lemma parse_duration_rejects:
  assumes "\<not> exact_duration s" and "\<not> exact_duration_nl s"
  shows "parse_duration s = Inl bad_duration"
  using assms duration_match_iff [of s] by (simp add: parse_duration_def)

lemma parse_duration_accepts:
  assumes "exact_duration s \<or> exact_duration_nl s"
  shows "\<exists>n. parse_duration s = Inr n"
proof -
  have "re_match DURATION_REGEX s \<noteq> None"
    using assms duration_match_iff [of s] by blast
  then show ?thesis
    unfolding re_match_def dur_ms
    by (auto split: list.splits if_splits simp: parse_mmss parse_hhmmss)
       (auto simp: parse_mmss_nl [unfolded newline_def] parse_hhmmss_nl [unfolded newline_def]
          newline_def)
qed

subsection \<open>Floating-point seconds\<close>

text \<open>
  C10. \<open>gen_duration\<close> accepts a float: it rounds it with \<^verbatim>\<open>round\<close> and continues as on
  the resulting integer, so that for every float \<open>f\<close> the result on \<open>f\<close> is the result on
  \<^verbatim>\<open>round(f)\<close> (both raise what \<^verbatim>\<open>round\<close> raises when \<open>f\<close> is not finite).
\<close>

theorem gen_duration_float:
  "gen_duration (PFloat f) = bindE (py_round f) (\<lambda>n. gen_duration (PInt n))"
  by (cases "py_round f") (simp_all add: gen_duration_def bindE_def)

text \<open>The rounding is to a nearest integer.\<close>

lemma round_half_even_nearest: "\<bar>of_int (round_half_even q) - q\<bar> \<le> 1 / 2"
  unfolding round_half_even_def Let_def by (auto simp: abs_if) linarith+

lemma gen_duration_float_examples:
  "gen_duration (PFloat (Finite (5 / 2))) = Inr ''00:02''"
  "gen_duration (PFloat (Finite (7 / 2))) = Inr ''00:04''"
  "gen_duration (PFloat (Finite (7439 / 2))) = Inr ''01:02:00''"
  by code_simp+

subsection \<open>The classifiers\<close>

text \<open>Both tables are iterated as dictionaries, which yields their keys; the first key of
  each is longer than two characters, so unpacking it into \<^verbatim>\<open>x, y\<close> raises before any
  pattern is tried.\<close>

lemma comprehension_long_key:
  "comprehension ((a # b # c # r) # ks) cond = Inl too_many"
  by (simp add: bindE_def)

lemma catalog_keys: "\<exists>a b c r ks. dict_iter CATALOG_REGEXES = (a # b # c # r) # ks"
  by (simp add: CATALOG_REGEXES_def dict_iter_def)

lemma url_keys: "\<exists>a b c r ks. dict_iter URL_REGEXES = (a # b # c # r) # ks"
  by (simp add: URL_REGEXES_def dict_iter_def)

lemma get_type_raises: "get_type_from_catalog_id ident = Inl too_many"
  using catalog_keys
  by (auto simp: get_type_from_catalog_id_def comprehension_long_key bindE_def)

lemma is_catalog_id_raises: "is_catalog_id ident = Inl too_many"
  using catalog_keys by (auto simp: is_catalog_id_def comprehension_long_key bindE_def)

lemma get_name_raises: "get_name unquote u = Inl too_many"
  using url_keys by (auto simp: get_name_def comprehension_long_key bindE_def)

text \<open>The tables themselves hold the patterns the claims expect: paired with their keys,
  they classify the three identifiers and the two URLs as the specification says.\<close>

lemma catalog_table_examples:
  "map fst (filter (\<lambda>(k, p). re_match p ''MC025'' \<noteq> None) CATALOG_REGEXES) = [''Album'']"
  "map fst (filter (\<lambda>(k, p). re_match p ''MCEP014'' \<noteq> None) CATALOG_REGEXES) = [''Extended Play'']"
  "map fst (filter (\<lambda>(k, p). re_match p ''not-an-id'' \<noteq> None) CATALOG_REGEXES) = []"
  by code_simp+

lemma url_table_examples:
  "map fst (filter (\<lambda>(k, p). re_search p ''https://www.youtube.com/watch?v=x'' \<noteq> None) URL_REGEXES) =
     [''YouTube'']"
  "map fst (filter (\<lambda>(k, p). re_search p horizon_example \<noteq> None) URL_REGEXES) = []"
  "re_search PERFORMANCE_HORIZON_REGEX horizon_example \<noteq> None"
  "map_option (\<lambda>m. group m 1) (re_search PERFORMANCE_HORIZON_DEST_REGEX horizon_example) =
     Some (Some ''https%3A%2F%2Fopen.spotify.com%2Ftrack%2F1'')"
  by code_simp+

text \<open>
  C1. The claim: the catalogue classifier raises on no input and returns Album for
  \<^verbatim>\<open>MC025\<close>, ExtendedPlay for \<^verbatim>\<open>MCEP014\<close> and None for \<^verbatim>\<open>not-an-id\<close>. The code:
  \<open>get_type_from_catalog_id\<close> raises \<^verbatim>\<open>ValueError\<close> on each of the three.
\<close>

theorem catalog_classifier_raises:
  "get_type_from_catalog_id ''MC025'' = Inl too_many \<and>
   get_type_from_catalog_id ''MCEP014'' = Inl too_many \<and>
   get_type_from_catalog_id ''not-an-id'' = Inl too_many"
  by (simp add: get_type_raises)

text \<open>
  C4. The claim: \<open>get_name\<close> returns \<^verbatim>\<open>YouTube\<close> for the video URL, the decoded
  destination for the link-indirection URL, and any other URL unchanged. The code:
  \<open>get_name\<close> raises \<^verbatim>\<open>ValueError\<close> on the two example URLs and on every other URL \<open>u\<close>.
\<close>

theorem get_name_raises_on_examples:
  "get_name unquote ''https://www.youtube.com/watch?v=x'' = Inl too_many \<and>
   get_name unquote horizon_example = Inl too_many \<and>
   get_name unquote u = Inl too_many"
  by (simp add: get_name_raises)

subsection \<open>The tracklist segmenter\<close>

text \<open>On the example, the pattern finds the three pairs and the stamps decode to 0, 195 and
  460 seconds.\<close>

lemma example_findall:
  "findall2 TRACKLIST_REGEX example_description =
     [(''00:00'', ''Intro''), (''03:15'', ''Track A''), (''07:40'', ''Track B'')]"
  by code_simp

lemma example_stamps:
  "parse_stamps [(''00:00'', ''Intro''), (''03:15'', ''Track A''), (''07:40'', ''Track B'')] =
     Inr [(0, ''Intro''), (195, ''Track A''), (460, ''Track B'')]"
  by code_simp

text \<open>The loop body, had it been reached with these three entries, files them under the
  keys 0, 195 and 265 with those same numbers as durations.\<close>

lemma example_loop:
  "foldl segment_step (0, []) [(0, ''Intro''), (195, ''Track A''), (460, ''Track B'')] =
     (655, [(0, (''Intro'', 0, 0)), (195, (''Track A'', 195, 195)),
            (265, (''Track B'', 460, 265))])"
  by (simp add: segment_step_def)

lemma set_yt_data_never_returns: "\<exists>err. MCLongSource_set_yt_data self data = Inl err"
  by (auto simp: MCLongSource_set_yt_data_def bindE_def list_values_def Let_def
      split: sum.splits)

text \<open>
  C5. The claim: segmenting the example description yields three segments, labelled
  Intro, Track A and Track B, with durations 195, 265 and an open last one. The code:
  \<open>set_yt_data\<close> on a lookup result with that description raises \<^verbatim>\<open>AttributeError\<close>,
  because it calls \<^verbatim>\<open>.values()\<close> on the list of decoded pairs.
\<close>

theorem set_yt_data_example_raises:
  "MCLongSource_set_yt_data (MCLongSource_init trk) example_video =
     Inl (AttributeError ''list object has no attribute values'')"
  by (simp add: MCLongSource_set_yt_data_def example_video_def example_findall example_stamps
      bindE_def list_values_def del: parse_stamps.simps)

text \<open>
  C6. The claim: on a description in which no line matches the tracklist pattern, the
  segmenter returns the empty sequence and raises nothing. The code: on every such
  description \<open>set_yt_data\<close> raises \<^verbatim>\<open>AttributeError\<close>.
\<close>

theorem set_yt_data_no_match_raises:
  assumes "findall2 TRACKLIST_REGEX s = []"
  shows "MCLongSource_set_yt_data self (JObj [(''description'', JStr s), (''webpage_url'', u)]) =
     Inl (AttributeError ''list object has no attribute values'')"
  using assms by (simp add: MCLongSource_set_yt_data_def bindE_def list_values_def)

lemma no_tracklist: "findall2 TRACKLIST_REGEX ''no tracklist here'' = []"
  by code_simp

theorem set_yt_data_no_match_raises_witness:
  "findall2 TRACKLIST_REGEX ''no tracklist here'' = [] \<and>
   MCLongSource_set_yt_data (MCLongSource_init ''Podcast 100'')
       (JObj [(''description'', JStr ''no tracklist here''),
              (''webpage_url'', JStr ''https://youtu.be/x'')]) =
     Inl (AttributeError ''list object has no attribute values'')"
  using set_yt_data_no_match_raises [OF no_tracklist] no_tracklist by simp

subsection \<open>The type guard of the single-track source\<close>

text \<open>The guard itself is in \<open>set_connect_data\<close> and fires there, also when the
  constructor calls it on catalogue data fetched beforehand.\<close>

lemma guard_multi:
  "getitem data ''type'' = Inr ty \<Longrightarrow> ty \<in> set (map JStr MULTI_TYPES) \<Longrightarrow>
   MCSingleSource_set_connect_data e self data trks = Inl wrong_type_multi"
  by (simp add: MCSingleSource_set_connect_data_def bindE_def)

lemma guard_long:
  "getitem data ''type'' = Inr ty \<Longrightarrow> ty \<in> set (map JStr LONG_TYPES) \<Longrightarrow>
   MCSingleSource_set_connect_data e self data trks = Inl wrong_type_long"
  by (auto simp: MCSingleSource_set_connect_data_def bindE_def MULTI_TYPES_def LONG_TYPES_def
      wrong_type_long_def)

lemma init_prefetched_album:
  "truthy trks \<Longrightarrow> MCSingleSource_init e trk album_release trks = Inl wrong_type_multi"
  by (simp add: MCSingleSource_init_def album_release_def MCSingleSource_set_connect_data_def
      bindE_def MULTI_TYPES_def)

lemma get_release_raises:
  "search \<noteq> [] \<Longrightarrow> get_release e search limit reqs = (Inl too_many, reqs)"
  by (simp add: get_release_def bindN_def lift_def is_catalog_id_raises)

lemma get_release_empty:
  "get_release e [] limit reqs = (Inl (ValueError ''Nothing to search.''), reqs)"
  by (simp add: get_release_def raise_def)

lemma init_track_only:
  "MCSingleSource_init e trk JNull JNull =
     Inr \<lparr>track = trk, has_connect_data = False, stype = ''single'',
          data_attr = Some JNull, url = None, stream_url = None, title = None,
          duration = None, thumb = None, source = None,
          release_date = None, artists = None, bpm = None, genre = None\<rparr>"
  by (simp add: MCSingleSource_init_def)

lemma get_info_raises:
  "\<not> has_connect_data self \<Longrightarrow> track self \<noteq> [] \<Longrightarrow>
   MCSingleSource_get_info e self reqs = (Inl too_many, reqs)"
  by (simp add: MCSingleSource_get_info_def bindN_def get_release_raises)

text \<open>
  C7. The claim: \<open>get_info\<close> on a single-track source over a multi-track or long-form
  release fails with the wrong-source-type error. The code: on the source constructed
  for the query \<^verbatim>\<open>MC025\<close>, \<open>get_info\<close> raises the unpacking \<^verbatim>\<open>ValueError\<close> of
  \<open>is_catalog_id\<close> before it issues any request, in every environment, hence whatever type
  the catalogue would report for the release; the guard is not reached.
\<close>

theorem single_get_info_raises_unpack:
  "\<exists>self. MCSingleSource_init e ''MC025'' JNull JNull = Inr self \<and>
     MCSingleSource_get_info e self reqs = (Inl too_many, reqs)"
  by (simp add: init_track_only get_info_raises)

subsection \<open>Cleaning up\<close>

text \<open>
  C8, as stated: \<open>cleanup\<close> is a no-op that raises nothing when \<open>load\<close> was never called.
  It does not hold: on a source of either class that has just been constructed,
  \<open>cleanup\<close> raises \<^verbatim>\<open>AttributeError\<close>.
\<close>

theorem cleanup_before_load:
  "MCSingleSource_init demo_env ''Pegboard Nerds - Hero'' JNull JNull = Inr fresh_single \<and>
   MCSingleSource_cleanup demo_env fresh_single = Inl no_source \<and>
   MCLongSource_cleanup demo_env (MCLongSource_init ''Podcast 100'') = Inl no_source"
  by (simp add: MCSingleSource_init_def MCSingleSource_cleanup_def MCLongSource_cleanup_def
      MCLongSource_init_def fresh_single_def bindE_def attr_def no_source_def)

text \<open>A call of \<open>cleanup\<close> that returns leaves a source whose handle has released its
  process.\<close>

lemma handle_cleanup_released:
  "FFmpegPCMAudio_cleanup e h = Inr h' \<Longrightarrow> process h' = None"
  by (auto simp: FFmpegPCMAudio_cleanup_def bindE_def split: option.splits sum.splits)

lemma handle_cleanup_again:
  "process h = None \<Longrightarrow> FFmpegPCMAudio_cleanup e h = Inr h"
  by (simp add: FFmpegPCMAudio_cleanup_def)

lemma single_cleanup_result:
  assumes "MCSingleSource_cleanup e s = Inr s'"
  shows "\<exists>h'. source s' = Some h' \<and> process h' = None"
proof (cases "source s")
  case None
  with assms show ?thesis
    by (simp add: MCSingleSource_cleanup_def bindE_def attr_def)
next
  case (Some h)
  show ?thesis
  proof (cases "FFmpegPCMAudio_cleanup e h")
    case (Inl err)
    with Some assms show ?thesis
      by (simp add: MCSingleSource_cleanup_def bindE_def attr_def)
  next
    case (Inr h')
    with Some assms have "s' = s\<lparr>source := Some h'\<rparr>"
      by (simp add: MCSingleSource_cleanup_def bindE_def attr_def)
    with handle_cleanup_released [OF Inr] show ?thesis by simp
  qed
qed

lemma long_cleanup_result:
  assumes "MCLongSource_cleanup e l = Inr l'"
  shows "\<exists>h'. source l' = Some h' \<and> process h' = None"
proof (cases "source l")
  case None
  with assms show ?thesis
    by (simp add: MCLongSource_cleanup_def bindE_def attr_def)
next
  case (Some h)
  show ?thesis
  proof (cases "FFmpegPCMAudio_cleanup e h")
    case (Inl err)
    with Some assms show ?thesis
      by (simp add: MCLongSource_cleanup_def bindE_def attr_def)
  next
    case (Inr h')
    with Some assms have "l' = l\<lparr>source := Some h'\<rparr>"
      by (simp add: MCLongSource_cleanup_def bindE_def attr_def)
    with handle_cleanup_released [OF Inr] show ?thesis by simp
  qed
qed

text \<open>
  C8, amended: \<open>cleanup\<close> on a streaming source is idempotent: when a call has returned,
  the next call in succession does not fail, and it changes nothing. It is not safe when
  \<open>load\<close> was never called: on a source without a handle, \<open>cleanup\<close> raises
  \<^verbatim>\<open>AttributeError\<close> instead of doing nothing.
\<close>

theorem cleanup_idempotent:
  "(MCSingleSource_cleanup e s = Inr s' \<longrightarrow> MCSingleSource_cleanup e s' = Inr s') \<and>
   (MCLongSource_cleanup e l = Inr l' \<longrightarrow> MCLongSource_cleanup e l' = Inr l') \<and>
   MCSingleSource_cleanup e (s\<lparr>source := None\<rparr>) = Inl no_source \<and>
   MCLongSource_cleanup e (l\<lparr>source := None\<rparr>) = Inl no_source"
proof (intro conjI impI)
  assume "MCSingleSource_cleanup e s = Inr s'"
  from single_cleanup_result [OF this] obtain h' where "source s' = Some h'" "process h' = None"
    by blast
  then show "MCSingleSource_cleanup e s' = Inr s'"
    by (simp add: MCSingleSource_cleanup_def bindE_def attr_def handle_cleanup_again)
next
  assume "MCLongSource_cleanup e l = Inr l'"
  from long_cleanup_result [OF this] obtain h' where "source l' = Some h'" "process h' = None"
    by blast
  then show "MCLongSource_cleanup e l' = Inr l'"
    by (simp add: MCLongSource_cleanup_def bindE_def attr_def handle_cleanup_again)
next
  show "MCSingleSource_cleanup e (s\<lparr>source := None\<rparr>) = Inl no_source"
    by (simp add: MCSingleSource_cleanup_def bindE_def attr_def no_source_def)
next
  show "MCLongSource_cleanup e (l\<lparr>source := None\<rparr>) = Inl no_source"
    by (simp add: MCLongSource_cleanup_def bindE_def attr_def no_source_def)
qed

text \<open>The witness runs \<open>load\<close> and then \<open>cleanup\<close> twice, on a source of each class.\<close>

theorem cleanup_idempotent_witness:
  "MCSingleSource_load demo_env (fresh_single\<lparr>stream_url := Some BLOBS\<rparr>) = Inr loaded_single \<and>
   MCLongSource_load demo_env (fresh_long\<lparr>stream_url := Some BLOBS\<rparr>) = Inr loaded_long \<and>
   MCSingleSource_cleanup demo_env loaded_single = Inr (loaded_single\<lparr>source := Some released\<rparr>) \<and>
   MCLongSource_cleanup demo_env loaded_long = Inr (loaded_long\<lparr>source := Some released\<rparr>) \<and>
   MCSingleSource_cleanup demo_env (loaded_single\<lparr>source := Some released\<rparr>) =
     Inr (loaded_single\<lparr>source := Some released\<rparr>) \<and>
   MCLongSource_cleanup demo_env (loaded_long\<lparr>source := Some released\<rparr>) =
     Inr (loaded_long\<lparr>source := Some released\<rparr>)"
proof -
  have s1: "MCSingleSource_cleanup demo_env loaded_single =
      Inr (loaded_single\<lparr>source := Some released\<rparr>)"
    by (simp add: MCSingleSource_cleanup_def FFmpegPCMAudio_cleanup_def loaded_single_def
        released_def demo_env_def bindE_def attr_def)
  have l1: "MCLongSource_cleanup demo_env loaded_long =
      Inr (loaded_long\<lparr>source := Some released\<rparr>)"
    by (simp add: MCLongSource_cleanup_def FFmpegPCMAudio_cleanup_def loaded_long_def
        released_def demo_env_def bindE_def attr_def)
  have ld: "MCSingleSource_load demo_env (fresh_single\<lparr>stream_url := Some BLOBS\<rparr>) =
        Inr loaded_single \<and>
      MCLongSource_load demo_env (fresh_long\<lparr>stream_url := Some BLOBS\<rparr>) = Inr loaded_long"
    by (simp add: MCSingleSource_load_def MCLongSource_load_def loaded_single_def
        loaded_long_def demo_env_def bindE_def attr_def)
  from cleanup_idempotent [of demo_env loaded_single "loaded_single\<lparr>source := Some released\<rparr>"
      loaded_long "loaded_long\<lparr>source := Some released\<rparr>"] s1 l1 ld
  show ?thesis by simp
qed

text \<open>On a loaded source the first call returns as soon as terminating the process
  does.\<close>

lemma cleanup_after_load_returns:
  assumes "source s = Some h" and "\<And>proc. process h = Some proc \<Longrightarrow> kill e proc = Inr ()"
  shows "MCSingleSource_cleanup e s = Inr (s\<lparr>source := Some (h\<lparr>process := None\<rparr>)\<rparr>)"
  using assms
  by (cases "process h")
     (simp_all add: MCSingleSource_cleanup_def FFmpegPCMAudio_cleanup_def bindE_def attr_def)

subsection \<open>Looking an artist up with an empty query\<close>

lemma grows_ret: "grows (ret x)"
  by (simp add: grows_def ret_def)

lemma grows_raise: "grows (raise x)"
  by (simp add: grows_def raise_def)

lemma grows_lift: "grows (lift x)"
  by (simp add: grows_def lift_def)

lemma grows_session_get: "grows (session_get e u)"
  by (simp add: grows_def session_get_def)

lemma grows_if: "grows a \<Longrightarrow> grows b \<Longrightarrow> grows (if c then a else b)"
  by simp

lemma grows_bindN:
  assumes "grows m" and "\<And>x. grows (f x)"
  shows "grows (bindN m f)"
  unfolding grows_def
proof
  fix reqs
  from assms(1) obtain more where m: "snd (m reqs) = reqs @ more"
    unfolding grows_def by blast
  show "\<exists>more. snd (bindN m f reqs) = reqs @ more"
  proof (cases "m reqs")
    case (Pair r reqs')
    with m have r': "reqs' = reqs @ more" by simp
    show ?thesis
    proof (cases r)
      case (Inl err)
      with Pair r' show ?thesis by (simp add: bindN_def)
    next
      case (Inr x)
      from assms(2) [of x] obtain more' where "snd (f x reqs') = reqs' @ more'"
        unfolding grows_def by blast
      with Pair Inr r' show ?thesis by (simp add: bindN_def)
    qed
  qed
qed

lemma grows_fetch_json: "grows (fetch_json e u)"
  unfolding fetch_json_def
  by (intro grows_bindN grows_session_get grows_if grows_lift grows_raise)

lemma fetch_json_requests: "snd (fetch_json e u reqs) = reqs @ [u]"
  by (simp add: fetch_json_def bindN_def session_get_def lift_def raise_def split: sum.splits)

lemma first_request:
  assumes "\<And>x. grows (f x)"
  shows "\<exists>res more. bindN (fetch_json e u) f reqs = (res, reqs @ u # more)"
proof (cases "fetch_json e u reqs")
  case (Pair r reqs')
  with fetch_json_requests [of e u reqs] have r': "reqs' = reqs @ [u]" by simp
  show ?thesis
  proof (cases r)
    case (Inl err)
    with Pair r' show ?thesis by (simp add: bindN_def)
  next
    case (Inr x)
    from assms [of x] obtain more where "snd (f x reqs') = reqs' @ more"
      unfolding grows_def by blast
    with Pair Inr r' show ?thesis
      by (cases "f x reqs'") (simp add: bindN_def)
  qed
qed

text \<open>
  C9. The claim: \<open>get_artist\<close> with an empty query fails with the validation error before
  any network call. The code: the emptiness test never fires, and the first thing
  \<open>get_artist\<close> does with the empty query is to request the artist URL with an empty slug.
\<close>

theorem get_artist_empty_issues_request:
  "\<exists>res more.
     get_artist e [] limit reqs =
       (res, reqs @ (BASE_URI @ ''/catalog/artist/'' @ quote e []) # more)"
  unfolding get_artist_def str_type_truthy_def Let_def
  by (simp add: str_lower_def)
     (intro first_request grows_bindN grows_if grows_lift grows_raise grows_ret grows_fetch_json)

text \<open>Against a catalogue that answers 404, the error that reaches the caller is the one
  about the response code.\<close>

lemma get_artist_empty_demo:
  "get_artist demo_env [] 10 [] =
     (Inl (ValueError (''Invalid response code: '' @ [backtick] @ ''404'' @ [backtick])),
      [''https://connect.monstercat.com/api/catalog/artist/''])"
  by code_simp

end
